theory Spec2Isabelle
  imports Complex_Main "HOL-Library.Multiset" "HOL-Library.Word"
begin

section \<open>Re-ranking of search results (process_search_results)\<close>

text \<open>
  The ranking step of the memory store is the Python method
  \<^verbatim>\<open>IntelligentMemoryManager.process_search_results(self, results, query)\<close>:
  \<^verbatim>\<open>
    processed_results = []
    for result in results:
        relevance_score = self.ebbinghaus_algorithm.calculate_relevance(result, query)
        decay_factor = self.ebbinghaus_algorithm.calculate_decay(
            result.get("created_at", datetime.utcnow())
        )
        processed_result = result.copy()
        processed_result["relevance_score"] = relevance_score
        processed_result["decay_factor"] = decay_factor
        processed_result["final_score"] = relevance_score * decay_factor
        processed_results.append(processed_result)
    processed_results.sort(key=lambda x: x["final_score"], reverse=True)
    return processed_results
  \<close>
  Scores and points in time are Python floats and datetimes; they are modelled as real
  numbers (no rounding, no NaN), a point in time as a number of days.
\<close>

type_synonym timestamp = real

text \<open>
  A search hit is a dict. The method reads one key of it, \<^verbatim>\<open>created_at\<close>, which may
  be missing (\<^verbatim>\<open>result.get\<close> with a default); every other key is only copied, and
  is kept in \<open>payload\<close>.
\<close>

record 'a result =
  created_at :: "timestamp option"
  payload :: 'a

text \<open>The processed hit is a copy of the dict with three more keys.\<close>

record 'a processed_result = "'a result" +
  relevance_score :: real
  decay_factor :: real
  final_score :: real

text \<open>
  The two methods of \<^verbatim>\<open>self.ebbinghaus_algorithm\<close> are not part of the sources; they
  are parameters of the model: \<open>calculate_relevance\<close> sees the hit and the query,
  \<open>calculate_decay\<close> sees one point in time. \<open>utcnow\<close> is the value that
  \<^verbatim>\<open>datetime.utcnow()\<close> returns in this iteration of the loop.
\<close>

text \<open>\<^verbatim>\<open>result.get("created_at", fallback)\<close>: the value of the key, the second
  argument when the key is missing.\<close>

definition get_created_at :: "('a, 'z) result_scheme \<Rightarrow> timestamp \<Rightarrow> timestamp" where
  "get_created_at result fallback =
     (case created_at result of Some t \<Rightarrow> t | None \<Rightarrow> fallback)"

definition process_result ::
  "('a result \<Rightarrow> string \<Rightarrow> real) \<Rightarrow> (timestamp \<Rightarrow> real) \<Rightarrow> timestamp \<Rightarrow> string
     \<Rightarrow> 'a result \<Rightarrow> 'a processed_result" where
  "process_result calculate_relevance calculate_decay utcnow query result =
     (let relevance_score = calculate_relevance result query;
          decay_factor = calculate_decay (get_created_at result utcnow)
      in \<lparr>created_at = created_at result, payload = payload result,
          relevance_score = relevance_score,
          decay_factor = decay_factor,
          final_score = relevance_score * decay_factor\<rparr>)"

text \<open>
  The \<^verbatim>\<open>for\<close> loop, with the list built so far as accumulator. The clock is read
  once per iteration: \<open>utcnow i\<close> is its value in iteration \<open>i\<close>, and the
  iteration number is the length of \<open>processed_results\<close>.
\<close>

fun process_loop ::
  "('a result \<Rightarrow> string \<Rightarrow> real) \<Rightarrow> (timestamp \<Rightarrow> real) \<Rightarrow> (nat \<Rightarrow> timestamp) \<Rightarrow> string
     \<Rightarrow> 'a processed_result list \<Rightarrow> 'a result list \<Rightarrow> 'a processed_result list" where
  "process_loop calculate_relevance calculate_decay utcnow query processed_results [] =
     processed_results"
| "process_loop calculate_relevance calculate_decay utcnow query processed_results (result # results) =
     process_loop calculate_relevance calculate_decay utcnow query
       (processed_results @
          [process_result calculate_relevance calculate_decay
             (utcnow (length processed_results)) query result])
       results"

text \<open>
  \<^verbatim>\<open>list.sort(key=..., reverse=True)\<close>: Python's sort is stable, and with
  \<^verbatim>\<open>reverse=True\<close> it reverses the list, sorts it stably in ascending order of the
  key and reverses the outcome, so that equal keys keep their order.
\<close>

definition sort_reverse :: "('b \<Rightarrow> real) \<Rightarrow> 'b list \<Rightarrow> 'b list" where
  "sort_reverse key xs = rev (sort_key key (rev xs))"

definition process_search_results ::
  "('a result \<Rightarrow> string \<Rightarrow> real) \<Rightarrow> (timestamp \<Rightarrow> real) \<Rightarrow> (nat \<Rightarrow> timestamp)
     \<Rightarrow> 'a result list \<Rightarrow> string \<Rightarrow> 'a processed_result list" where
  "process_search_results calculate_relevance calculate_decay utcnow results query =
     sort_reverse final_score
       (process_loop calculate_relevance calculate_decay utcnow query [] results)"

text \<open>
  The hits of a batch scored in the order of the input, hit \<open>i\<close> with the clock value
  of iteration \<open>i\<close>: what the loop has appended when it ends.
\<close>

definition scored_in_order ::
  "('a result \<Rightarrow> string \<Rightarrow> real) \<Rightarrow> (timestamp \<Rightarrow> real) \<Rightarrow> (nat \<Rightarrow> timestamp)
     \<Rightarrow> 'a result list \<Rightarrow> string \<Rightarrow> 'a processed_result list" where
  "scored_in_order calculate_relevance calculate_decay utcnow results query =
     map (\<lambda>i. process_result calculate_relevance calculate_decay (utcnow i) query (results ! i))
       [0..<length results]"

text \<open>The dict a processed hit was copied from: the hit without the three scores.\<close>

definition source_result :: "'a processed_result \<Rightarrow> 'a result" where
  "source_result p = \<lparr>created_at = created_at p, payload = payload p\<rparr>"

section \<open>Retention model and tier classifier\<close>

text \<open>
  The bodies of \<^verbatim>\<open>calculate_decay\<close> and of the tier classification are not part of
  the sources, which only call the former. The definitions of this section follow the
  specification of the retention core instead; numbers are real numbers.
\<close>

text \<open>Modelled from the spec: the configuration record \<^verbatim>\<open>Config\<close> (no configuration
  class is in the sources): decay rate per day, initial retention, reinforcement factor
  and the three tier thresholds.\<close>

record config =
  decay_rate :: real
  initial_retention :: real
  reinforcement_factor :: real
  working :: real
  short_term :: real
  long_term :: real

text \<open>Modelled from the spec: the conditions under which a \<^verbatim>\<open>Config\<close> can be
  constructed (the constructor is not in the sources): \<^verbatim>\<open>decay_rate > 0\<close>,
  \<^verbatim>\<open>initial_retention\<close> in \<^verbatim>\<open>(0,1]\<close>, \<^verbatim>\<open>reinforcement_factor >= 0\<close>, thresholds in
  \<^verbatim>\<open>[0,1]\<close> with \<^verbatim>\<open>working <= short_term <= long_term\<close>.\<close>

definition valid_config :: "config \<Rightarrow> bool" where
  "valid_config cfg \<longleftrightarrow>
     0 < decay_rate cfg \<and> 0 < initial_retention cfg \<and> initial_retention cfg \<le> 1 \<and>
     0 \<le> reinforcement_factor cfg \<and>
     0 \<le> working cfg \<and> working cfg \<le> short_term cfg \<and> short_term cfg \<le> long_term cfg \<and>
     long_term cfg \<le> 1"

text \<open>Modelled from the spec: the reference time of \<^verbatim>\<open>decay\<close> (its body is not in the
  sources): \<^verbatim>\<open>last_reinforced_at\<close> if present, else \<^verbatim>\<open>created_at\<close>.\<close>

definition reference_time :: "timestamp \<Rightarrow> timestamp option \<Rightarrow> timestamp" where
  "reference_time created last_reinforced =
     (case last_reinforced of Some t \<Rightarrow> t | None \<Rightarrow> created)"

text \<open>Modelled from the spec: \<^verbatim>\<open>age_days = max(0, now - reference_time)\<close> (the body of
  \<^verbatim>\<open>decay\<close> is not in the sources).\<close>

definition age_days :: "timestamp \<Rightarrow> timestamp \<Rightarrow> real" where
  "age_days now reference = max 0 (now - reference)"

text \<open>Modelled from the spec: the effective decay rate of \<^verbatim>\<open>decay\<close> (its body is not
  in the sources), \<^verbatim>\<open>decay_rate / (1 + reinforcement_factor * access_count)\<close>.\<close>

definition effective_decay_rate :: "config \<Rightarrow> nat \<Rightarrow> real" where
  "effective_decay_rate cfg accesses =
     decay_rate cfg / (1 + reinforcement_factor cfg * real accesses)"

text \<open>Modelled from the spec: the retention of \<^verbatim>\<open>decay\<close> at a given age (its body is
  not in the sources), \<^verbatim>\<open>initial_retention * exp(-effective_decay_rate * age_days)\<close>
  clamped to \<^verbatim>\<open>[0, initial_retention]\<close>.\<close>

definition retention_at_age :: "config \<Rightarrow> nat \<Rightarrow> real \<Rightarrow> real" where
  "retention_at_age cfg accesses age =
     max 0 (min (initial_retention cfg)
       (initial_retention cfg * exp (- effective_decay_rate cfg accesses * age)))"

text \<open>Modelled from the spec: the operation
  \<^verbatim>\<open>decay(created_at, last_reinforced_at, access_count, now, config)\<close> of the retention
  model (its body is not in the sources).\<close>

definition decay :: "timestamp \<Rightarrow> timestamp option \<Rightarrow> nat \<Rightarrow> timestamp \<Rightarrow> config \<Rightarrow> real" where
  "decay created last_reinforced accesses now cfg =
     retention_at_age cfg accesses (age_days now (reference_time created last_reinforced))"

text \<open>Modelled from the spec: the lifecycle tiers that \<^verbatim>\<open>classify\<close> returns (no tier
  type is in the sources).\<close>

datatype tier = LongTerm | ShortTerm | Working | Forgotten

text \<open>Modelled from the spec: the operation \<^verbatim>\<open>classify(retention, config)\<close> of the tier
  classifier (no classifier is in the sources): the first threshold that the retention
  reaches, from the highest down.\<close>

definition classify :: "real \<Rightarrow> config \<Rightarrow> tier" where
  "classify retention cfg =
     (if retention \<ge> long_term cfg then LongTerm
      else if retention \<ge> short_term cfg then ShortTerm
      else if retention \<ge> working cfg then Working
      else Forgotten)"

section \<open>Memory ids in JSON (examples/go/models.go, test_precision.js)\<close>

text \<open>
  The Go client keeps a memory id in \<^verbatim>\<open>type MemoryID int64\<close>, a 64-bit word read as
  a signed number.
\<close>

type_synonym int64 = "64 word"
type_synonym MemoryID = int64

text \<open>
  A JSON value as \<^verbatim>\<open>encoding/json\<close> scans it: a number keeps the text of its literal,
  a string is the decoded text.
\<close>

datatype json =
  JNull
  | JBool bool
  | JNumber string
  | JString string
  | JArray "json list"
  | JObject "(string \<times> json) list"

datatype error = ErrSyntax | ErrRange | UnmarshalTypeError

subsection \<open>strconv\<close>

text \<open>
  \<^verbatim>\<open>strconv.ParseUint(s, 10, 64)\<close>: the loop over the bytes of \<open>s\<close>. A byte that is
  not a decimal digit is a syntax error; \<open>n\<close> is a \<^verbatim>\<open>uint64\<close>, and the two tests
  \<^verbatim>\<open>n >= cutoff\<close> (with \<^verbatim>\<open>cutoff = maxUint64/10 + 1\<close>) and
  \<^verbatim>\<open>n1 < n || n1 > maxVal\<close> catch the products and sums that would wrap around, so
  that on natural numbers the second one reads \<open>n1 > maxVal\<close>.
\<close>

definition maxUint64 :: nat where
  "maxUint64 = 2 ^ 64 - 1"

definition is_digit :: "char \<Rightarrow> bool" where
  "is_digit c \<longleftrightarrow> (48::nat) \<le> of_char c \<and> of_char c \<le> (57::nat)"

definition digit_value :: "char \<Rightarrow> nat" where
  "digit_value c = of_char c - 48"

fun ParseUint_loop :: "nat \<Rightarrow> string \<Rightarrow> error + nat" where
  "ParseUint_loop n [] = Inr n"
| "ParseUint_loop n (c # cs) =
     (if \<not> is_digit c then Inl ErrSyntax
      else if n \<ge> maxUint64 div 10 + 1 then Inl ErrRange
      else let n1 = n * 10 + digit_value c
           in if n1 > maxUint64 then Inl ErrRange else ParseUint_loop n1 cs)"

definition ParseUint :: "string \<Rightarrow> error + nat" where
  "ParseUint s = (if s = [] then Inl ErrSyntax else ParseUint_loop 0 s)"

text \<open>
  \<^verbatim>\<open>strconv.ParseInt(s, 10, 64)\<close>: a leading sign is picked off, the rest is parsed
  as unsigned and checked against \<^verbatim>\<open>cutoff = 1 << 63\<close>. An error of \<^verbatim>\<open>ParseUint\<close>
  stays an error of the same kind (after a range error \<^verbatim>\<open>un\<close> is \<^verbatim>\<open>maxVal\<close>, which
  fails the cutoff test).
\<close>

definition ParseInt :: "string \<Rightarrow> error + int64" where
  "ParseInt s =
     (if s = [] then Inl ErrSyntax
      else let neg = (hd s = CHR ''-'');
               s' = (if hd s = CHR ''+'' \<or> hd s = CHR ''-'' then tl s else s)
           in case ParseUint s' of
                Inl err \<Rightarrow> Inl err
              | Inr un \<Rightarrow>
                  if \<not> neg \<and> un \<ge> 2 ^ 63 then Inl ErrRange
                  else if neg \<and> un > 2 ^ 63 then Inl ErrRange
                  else Inr (if neg then - word_of_nat un else word_of_nat un))"

text \<open>
  \<^verbatim>\<open>strconv.FormatInt(i, 10)\<close>: the decimal digits of the magnitude, most significant
  first, after a minus sign for a negative number.
\<close>

definition digit_char :: "nat \<Rightarrow> char" where
  "digit_char d = char_of (48 + d)"

fun format_digits :: "nat \<Rightarrow> string" where
  "format_digits u =
     (if u < 10 then [digit_char u] else format_digits (u div 10) @ [digit_char (u mod 10)])"

declare format_digits.simps [simp del]

definition FormatInt :: "int64 \<Rightarrow> string" where
  "FormatInt i =
     (if sint i < 0 then CHR ''-'' # format_digits (nat (- sint i))
      else format_digits (nat (sint i)))"

subsection \<open>encoding/json on an int64 and on a string\<close>

text \<open>
  \<^verbatim>\<open>json.Unmarshal(data, &n)\<close> for \<^verbatim>\<open>n int64\<close>: the new value of \<open>n\<close>, or the error.
  A number literal is parsed with \<^verbatim>\<open>strconv.ParseInt\<close> and refused
  (\<^verbatim>\<open>UnmarshalTypeError\<close>) when that fails; \<^verbatim>\<open>null\<close> has no effect on a number and
  is no error; every other value is an \<^verbatim>\<open>UnmarshalTypeError\<close>.
\<close>

fun Unmarshal_int64 :: "json \<Rightarrow> int64 \<Rightarrow> error + int64" where
  "Unmarshal_int64 (JNumber lit) n =
     (case ParseInt lit of Inr v \<Rightarrow> Inr v | Inl err \<Rightarrow> Inl UnmarshalTypeError)"
| "Unmarshal_int64 JNull n = Inr n"
| "Unmarshal_int64 data n = Inl UnmarshalTypeError"

text \<open>\<^verbatim>\<open>json.Unmarshal(data, &s)\<close> for \<^verbatim>\<open>s string\<close>, in the same way.\<close>

fun Unmarshal_string :: "json \<Rightarrow> string \<Rightarrow> error + string" where
  "Unmarshal_string (JString v) s = Inr v"
| "Unmarshal_string JNull s = Inr s"
| "Unmarshal_string data s = Inl UnmarshalTypeError"

text \<open>\<^verbatim>\<open>json.Marshal(i)\<close> for \<^verbatim>\<open>i int64\<close>: a number literal with the decimal digits.\<close>

definition Marshal_int64 :: "int64 \<Rightarrow> error + json" where
  "Marshal_int64 i = Inr (JNumber (FormatInt i))"

subsection \<open>MemoryID\<close>

text \<open>
  \<^verbatim>\<open>
  func (m MemoryID) MarshalJSON() ([]byte, error) {
      return json.Marshal(int64(m))
  }
  \<close>
\<close>

definition MarshalJSON :: "MemoryID \<Rightarrow> error + json" where
  "MarshalJSON m = Marshal_int64 m"

text \<open>
  \<^verbatim>\<open>
  func (m *MemoryID) UnmarshalJSON(data []byte) error {
      var n int64
      if err := json.Unmarshal(data, &n); err == nil {
          *m = MemoryID(n)
          return nil
      }
      var s string
      if err := json.Unmarshal(data, &s); err == nil {
          n, err := strconv.ParseInt(s, 10, 64)
          if err != nil {
              return err
          }
          *m = MemoryID(n)
          return nil
      }
      return nil
  }
  \<close>
  The model takes the value of \<open>*m\<close> before the call and the value that \<open>data\<close>
  holds, and returns the error (\<open>None\<close> for \<^verbatim>\<open>nil\<close>) with the value of \<open>*m\<close>
  after the call. Both local variables start at their zero values.
\<close>

definition UnmarshalJSON :: "MemoryID \<Rightarrow> json \<Rightarrow> error option \<times> MemoryID" where
  "UnmarshalJSON m data =
     (case Unmarshal_int64 data 0 of
        Inr n \<Rightarrow> (None, n)
      | Inl _ \<Rightarrow>
         (case Unmarshal_string data [] of
            Inr s \<Rightarrow>
              (case ParseInt s of
                 Inl err \<Rightarrow> (Some err, m)
               | Inr n \<Rightarrow> (None, n))
          | Inl _ \<Rightarrow> (None, m)))"

text \<open>\<^verbatim>\<open>func (m MemoryID) String() string\<close> and \<^verbatim>\<open>func (m MemoryID) Int64() int64\<close>.\<close>

definition String :: "MemoryID \<Rightarrow> string" where
  "String m = FormatInt m"

definition Int64 :: "MemoryID \<Rightarrow> int64" where
  "Int64 m = m"

subsection \<open>A reader with double-precision numbers\<close>

text \<open>
  \<^verbatim>\<open>JSON.parse\<close> of test_precision.js turns a number literal into a JavaScript Number,
  an IEEE 754 double: an integer is rounded to 53 significant bits, a tie to the even
  neighbour. The integers of the 64-bit range are far from the overflow of a double.
\<close>

fun bit_length :: "nat \<Rightarrow> nat" where
  "bit_length n = (if n = 0 then 0 else Suc (bit_length (n div 2)))"

declare bit_length.simps [simp del]

definition round_to_double :: "int \<Rightarrow> int" where
  "round_to_double x =
     (let a = nat \<bar>x\<bar>;
          e = bit_length a - 53;
          q = a div 2 ^ e;
          r = a mod 2 ^ e;
          q' = (if 2 * r > 2 ^ e \<or> (2 * r = 2 ^ e \<and> odd q) then q + 1 else q)
      in sgn x * int (q' * 2 ^ e))"

section \<open>Facts about the loop and the sort\<close>

lemma process_loop_append:
  "process_loop rel dec utcnow query acc results =
     acc @ map (\<lambda>i. process_result rel dec (utcnow (length acc + i)) query (results ! i))
             [0..<length results]"
proof (induction results arbitrary: acc)
  case Nil
  then show ?case by simp
next
  case (Cons r rs)
  have "map (\<lambda>i. process_result rel dec (utcnow (length acc + i)) query ((r # rs) ! i))
          [0..<length (r # rs)] =
        process_result rel dec (utcnow (length acc)) query r #
        map (\<lambda>i. process_result rel dec (utcnow (Suc (length acc) + i)) query (rs ! i))
          [0..<length rs]"
    by (simp add: upt_conv_Cons map_Suc_upt [symmetric] del: upt_Suc)
  then show ?case
    by (simp add: Cons.IH del: upt_Suc)
qed

lemma process_loop_scored:
  "process_loop rel dec utcnow query [] results = scored_in_order rel dec utcnow results query"
  by (simp add: process_loop_append scored_in_order_def)

lemma length_scored_in_order [simp]:
  "length (scored_in_order rel dec utcnow results query) = length results"
  by (simp add: scored_in_order_def)

lemma nth_scored_in_order:
  "i < length results \<Longrightarrow>
     scored_in_order rel dec utcnow results query ! i =
       process_result rel dec (utcnow i) query (results ! i)"
  by (simp add: scored_in_order_def)

lemma source_process_result [simp]:
  "source_result (process_result rel dec now query r) = r"
  by (simp add: source_result_def process_result_def Let_def)

lemma map_source_scored:
  "map source_result (scored_in_order rel dec utcnow results query) = results"
  by (rule nth_equalityI) (simp_all add: nth_scored_in_order)

lemma sort_reverse_sorted:
  "sorted_wrt (\<lambda>a b. key a \<ge> key b) (sort_reverse key xs)"
proof -
  have "sorted (map key (sort_key key (rev xs)))"
    by (rule sorted_sort_key)
  then have "sorted_wrt (\<lambda>a b. key a \<le> key b) (sort_key key (rev xs))"
    by (simp add: sorted_map)
  then show ?thesis
    by (simp add: sort_reverse_def sorted_wrt_rev)
qed

lemma sort_reverse_stable:
  "filter (\<lambda>x. key x = k) (sort_reverse key xs) = filter (\<lambda>x. key x = k) xs"
  by (simp add: sort_reverse_def rev_filter [symmetric] sort_key_stable)

lemma mset_sort_reverse [simp]: "mset (sort_reverse key xs) = mset xs"
  by (simp add: sort_reverse_def)

lemma set_sort_reverse [simp]: "set (sort_reverse key xs) = set xs"
  by (simp add: sort_reverse_def)

lemma length_sort_reverse [simp]: "length (sort_reverse key xs) = length xs"
  by (simp add: sort_reverse_def)

lemma in_process_search_results:
  "p \<in> set (process_search_results rel dec utcnow results query) \<longleftrightarrow>
     (\<exists>i < length results. p = process_result rel dec (utcnow i) query (results ! i))"
  by (auto simp: process_search_results_def process_loop_scored scored_in_order_def)

lemma mset_sources_process_search_results:
  "mset (map source_result (process_search_results rel dec utcnow results query)) = mset results"
proof -
  have "mset (map source_result (process_search_results rel dec utcnow results query)) =
        mset (map source_result (scored_in_order rel dec utcnow results query))"
    by (simp add: process_search_results_def process_loop_scored)
  then show ?thesis
    by (simp add: map_source_scored)
qed

lemma filter_eq_Cons_split:
  assumes "filter P ys = x # zs"
  shows "\<exists>us vs. ys = us @ x # vs \<and> filter P vs = zs"
  using assms by (auto simp: filter_eq_Cons_iff)

lemma filter_eq_append_split:
  "filter P ys = us @ vs \<Longrightarrow>
     \<exists>ys1 ys2. ys = ys1 @ ys2 \<and> filter P ys1 = us \<and> filter P ys2 = vs"
proof (induction ys arbitrary: us)
  case Nil
  then show ?case by simp
next
  case (Cons y ys)
  show ?case
  proof (cases "P y")
    case False
    with Cons.prems have "filter P ys = us @ vs"
      by simp
    from Cons.IH [OF this] obtain ys1 ys2
      where "ys = ys1 @ ys2" "filter P ys1 = us" "filter P ys2 = vs"
      by blast
    with False have "y # ys = (y # ys1) @ ys2 \<and> filter P (y # ys1) = us \<and> filter P ys2 = vs"
      by simp
    then show ?thesis
      by blast
  next
    case True
    show ?thesis
    proof (cases us)
      case Nil
      with Cons.prems have "y # ys = [] @ (y # ys) \<and> filter P [] = us \<and> filter P (y # ys) = vs"
        by simp
      then show ?thesis
        by blast
    next
      case (Cons u us')
      with True Cons.prems have u: "u = y" and rest: "filter P ys = us' @ vs"
        by simp_all
      from Cons.IH [OF rest] obtain ys1 ys2
        where "ys = ys1 @ ys2" "filter P ys1 = us'" "filter P ys2 = vs"
        by blast
      with True u Cons have "y # ys = (y # ys1) @ ys2 \<and> filter P (y # ys1) = us \<and> filter P ys2 = vs"
        by simp
      then show ?thesis
        by blast
    qed
  qed
qed

lemma stable_order:
  assumes eq: "filter (\<lambda>z. key z = k) ys = filter (\<lambda>z. key z = k) xs"
    and xs: "xs = as @ x # bs @ y # cs"
    and kx: "key x = k" and ky: "key y = k"
  shows "\<exists>ps qs rs. ys = ps @ x # qs @ y # rs"
proof -
  let ?P = "\<lambda>z. key z = k"
  have "filter ?P ys = filter ?P as @ x # filter ?P bs @ y # filter ?P cs"
    using eq xs kx ky by simp
  then obtain ys1 ys2 where ys: "ys = ys1 @ ys2"
    and f2: "filter ?P ys2 = x # filter ?P bs @ y # filter ?P cs"
    using filter_eq_append_split [of ?P ys "filter ?P as"] by blast
  from filter_eq_Cons_split [OF f2] obtain us vs where ys2: "ys2 = us @ x # vs"
    and fvs: "filter ?P vs = filter ?P bs @ y # filter ?P cs"
    by blast
  from fvs obtain vs1 vs2 where vs: "vs = vs1 @ vs2"
    and f3: "filter ?P vs2 = y # filter ?P cs"
    using filter_eq_append_split [of ?P vs "filter ?P bs"] by blast
  from filter_eq_Cons_split [OF f3] obtain us' vs' where vs2: "vs2 = us' @ y # vs'"
    by blast
  have "ys = (ys1 @ us) @ x # (vs1 @ us') @ y # vs'"
    by (simp add: ys ys2 vs vs2)
  then show ?thesis
    by blast
qed

section \<open>The ranking contract\<close>

text \<open>
  Claim C1. For every batch of hits, \<open>process_search_results\<close> returns the processed
  hits sorted by \<open>final_score\<close>, highest first, and hits of equal \<open>final_score\<close>
  keep the order they have in the input: for every score \<open>s\<close> the hits of that score
  come out in the order in which the loop scored them, the output holds the scored hits
  and no others, and the loop scores the hits in the order of the input. So of two
  hits with the same \<open>final_score\<close>, the one that is earlier in the input is earlier
  in the output.
\<close>

theorem rank_sorted_stable:
  "sorted_wrt (\<lambda>a b. final_score a \<ge> final_score b)
     (process_search_results rel dec utcnow results query)
   \<and> filter (\<lambda>p. final_score p = s) (process_search_results rel dec utcnow results query) =
     filter (\<lambda>p. final_score p = s) (scored_in_order rel dec utcnow results query)
   \<and> mset (process_search_results rel dec utcnow results query) =
     mset (scored_in_order rel dec utcnow results query)
   \<and> map source_result (scored_in_order rel dec utcnow results query) = results
   \<and> (scored_in_order rel dec utcnow results query = as @ x # bs @ y # cs
        \<and> final_score x = final_score y \<longrightarrow>
      (\<exists>ps qs rs. process_search_results rel dec utcnow results query = ps @ x # qs @ y # rs))"
proof -
  let ?out = "process_search_results rel dec utcnow results query"
  let ?scored = "scored_in_order rel dec utcnow results query"
  have out: "?out = sort_reverse final_score ?scored"
    by (simp add: process_search_results_def process_loop_scored)
  have sorted: "sorted_wrt (\<lambda>a b. final_score a \<ge> final_score b) ?out"
    unfolding out by (rule sort_reverse_sorted)
  have stable: "filter (\<lambda>p. final_score p = k) ?out = filter (\<lambda>p. final_score p = k) ?scored"
    for k
    unfolding out by (rule sort_reverse_stable)
  have perm: "mset ?out = mset ?scored"
    unfolding out by simp
  have order: "\<exists>ps qs rs. ?out = ps @ x # qs @ y # rs"
    if "?scored = as @ x # bs @ y # cs" and "final_score x = final_score y"
    using stable [of "final_score y"] that
    by (rule stable_order) simp
  show ?thesis
    using sorted stable [of s] perm map_source_scored [of rel dec utcnow results query] order
    by blast
qed

theorem rank_sorted_stable_witness:
  "process_search_results (\<lambda>r q. if payload r = 2 then 4/5 else 1/2) (\<lambda>t. 1) (\<lambda>i. 10)
      [\<lparr>created_at = Some 0, payload = 1::nat\<rparr>, \<lparr>created_at = None, payload = 2\<rparr>,
       \<lparr>created_at = Some 0, payload = 3\<rparr>] ''q''
    = [\<lparr>created_at = None, payload = 2, relevance_score = 4/5, decay_factor = 1, final_score = 4/5\<rparr>,
       \<lparr>created_at = Some 0, payload = 1, relevance_score = 1/2, decay_factor = 1, final_score = 1/2\<rparr>,
       \<lparr>created_at = Some 0, payload = 3, relevance_score = 1/2, decay_factor = 1, final_score = 1/2\<rparr>]
   \<and> scored_in_order (\<lambda>r q. if payload r = 2 then 4/5 else 1/2) (\<lambda>t. 1) (\<lambda>i. 10)
      [\<lparr>created_at = Some 0, payload = 1::nat\<rparr>, \<lparr>created_at = None, payload = 2\<rparr>,
       \<lparr>created_at = Some 0, payload = 3\<rparr>] ''q''
    = [] @ \<lparr>created_at = Some 0, payload = 1, relevance_score = 1/2, decay_factor = 1, final_score = 1/2\<rparr> #
       [\<lparr>created_at = None, payload = 2, relevance_score = 4/5, decay_factor = 1, final_score = 4/5\<rparr>] @
       \<lparr>created_at = Some 0, payload = 3, relevance_score = 1/2, decay_factor = 1, final_score = 1/2\<rparr> # []
   \<and> final_score \<lparr>created_at = Some 0, payload = 1, relevance_score = 1/2, decay_factor = 1, final_score = 1/2\<rparr> =
     final_score \<lparr>created_at = Some 0, payload = 3, relevance_score = 1/2, decay_factor = 1, final_score = 1/2\<rparr>
   \<and> (\<exists>ps qs rs.
        process_search_results (\<lambda>r q. if payload r = 2 then 4/5 else 1/2) (\<lambda>t. 1) (\<lambda>i. 10)
      [\<lparr>created_at = Some 0, payload = 1::nat\<rparr>, \<lparr>created_at = None, payload = 2\<rparr>,
       \<lparr>created_at = Some 0, payload = 3\<rparr>] ''q''
        = ps @ \<lparr>created_at = Some 0, payload = 1, relevance_score = 1/2, decay_factor = 1, final_score = 1/2\<rparr> #
          qs @ \<lparr>created_at = Some 0, payload = 3, relevance_score = 1/2, decay_factor = 1, final_score = 1/2\<rparr> # rs)"
proof -
  have out: "process_search_results (\<lambda>r q. if payload r = 2 then 4/5 else 1/2) (\<lambda>t. 1) (\<lambda>i. 10)
      [\<lparr>created_at = Some 0, payload = 1::nat\<rparr>, \<lparr>created_at = None, payload = 2\<rparr>,
       \<lparr>created_at = Some 0, payload = 3\<rparr>] ''q''
    = [\<lparr>created_at = None, payload = 2, relevance_score = 4/5, decay_factor = 1, final_score = 4/5\<rparr>,
       \<lparr>created_at = Some 0, payload = 1, relevance_score = 1/2, decay_factor = 1, final_score = 1/2\<rparr>,
       \<lparr>created_at = Some 0, payload = 3, relevance_score = 1/2, decay_factor = 1, final_score = 1/2\<rparr>]"
    by (simp add: process_search_results_def sort_reverse_def process_result_def
        get_created_at_def Let_def)
  have scored: "scored_in_order (\<lambda>r q. if payload r = 2 then 4/5 else 1/2) (\<lambda>t. 1) (\<lambda>i. 10)
      [\<lparr>created_at = Some 0, payload = 1::nat\<rparr>, \<lparr>created_at = None, payload = 2\<rparr>,
       \<lparr>created_at = Some 0, payload = 3\<rparr>] ''q''
    = [] @ \<lparr>created_at = Some 0, payload = 1, relevance_score = 1/2, decay_factor = 1, final_score = 1/2\<rparr> #
       [\<lparr>created_at = None, payload = 2, relevance_score = 4/5, decay_factor = 1, final_score = 4/5\<rparr>] @
       \<lparr>created_at = Some 0, payload = 3, relevance_score = 1/2, decay_factor = 1, final_score = 1/2\<rparr> # []"
    by (simp add: scored_in_order_def process_result_def get_created_at_def Let_def)
  from rank_sorted_stable [of "\<lambda>r q. if payload r = 2 then 4/5 else 1/2" "\<lambda>t. 1" "\<lambda>i. 10"
      "[\<lparr>created_at = Some 0, payload = 1::nat\<rparr>, \<lparr>created_at = None, payload = 2\<rparr>,
       \<lparr>created_at = Some 0, payload = 3\<rparr>]" "''q''" "1/2" "[]"
      "\<lparr>created_at = Some 0, payload = 1, relevance_score = 1/2, decay_factor = 1, final_score = 1/2\<rparr>"
      "[\<lparr>created_at = None, payload = 2, relevance_score = 4/5, decay_factor = 1, final_score = 4/5\<rparr>]"
      "\<lparr>created_at = Some 0, payload = 3, relevance_score = 1/2, decay_factor = 1, final_score = 1/2\<rparr>" "[]"]
  have "\<exists>ps qs rs.
        process_search_results (\<lambda>r q. if payload r = 2 then 4/5 else 1/2) (\<lambda>t. 1) (\<lambda>i. 10)
      [\<lparr>created_at = Some 0, payload = 1::nat\<rparr>, \<lparr>created_at = None, payload = 2\<rparr>,
       \<lparr>created_at = Some 0, payload = 3\<rparr>] ''q''
        = ps @ \<lparr>created_at = Some 0, payload = 1, relevance_score = 1/2, decay_factor = 1, final_score = 1/2\<rparr> #
          qs @ \<lparr>created_at = Some 0, payload = 3, relevance_score = 1/2, decay_factor = 1, final_score = 1/2\<rparr> # rs"
    using scored by simp
  then show ?thesis
    using out scored by simp
qed

text \<open>
  Claim C2. Every hit that \<open>process_search_results\<close> returns carries the relevance
  computed for it, and its \<open>final_score\<close> is the product of its relevance score and
  its decay factor; the product lies in \<open>[0,1]\<close> whenever both factors do.
\<close>

theorem final_score_product:
  "\<forall>p \<in> set (process_search_results rel dec utcnow results query).
     relevance_score p = rel (source_result p) query
   \<and> final_score p = relevance_score p * decay_factor p
   \<and> (0 \<le> relevance_score p \<and> relevance_score p \<le> 1 \<and> 0 \<le> decay_factor p \<and> decay_factor p \<le> 1
        \<longrightarrow> 0 \<le> final_score p \<and> final_score p \<le> 1)"
proof
  fix p
  assume "p \<in> set (process_search_results rel dec utcnow results query)"
  then have "p \<in> set (scored_in_order rel dec utcnow results query)"
    by (simp add: process_search_results_def process_loop_scored)
  then obtain i where p: "p = process_result rel dec (utcnow i) query (results ! i)"
    by (auto simp: scored_in_order_def)
  have src: "source_result p = results ! i"
    by (simp add: p)
  have rel: "relevance_score p = rel (results ! i) query"
    by (simp add: p process_result_def Let_def)
  have prod: "final_score p = relevance_score p * decay_factor p"
    by (simp add: p process_result_def Let_def)
  have range: "0 \<le> final_score p \<and> final_score p \<le> 1"
    if "0 \<le> relevance_score p \<and> relevance_score p \<le> 1 \<and> 0 \<le> decay_factor p \<and> decay_factor p \<le> 1"
    using that unfolding prod by (simp add: mult_le_one)
  show "relevance_score p = rel (source_result p) query
   \<and> final_score p = relevance_score p * decay_factor p
   \<and> (0 \<le> relevance_score p \<and> relevance_score p \<le> 1 \<and> 0 \<le> decay_factor p \<and> decay_factor p \<le> 1
        \<longrightarrow> 0 \<le> final_score p \<and> final_score p \<le> 1)"
    using src rel prod range by simp
qed

theorem final_score_product_witness:
  "\<lparr>created_at = Some 0, payload = 1::nat, relevance_score = 1/2, decay_factor = 4/5, final_score = 2/5\<rparr>
     \<in> set (process_search_results (\<lambda>r q. 1/2) (\<lambda>t. 4/5) (\<lambda>i. 10)
              [\<lparr>created_at = Some 0, payload = 1::nat\<rparr>] ''q'')
   \<and> (2/5 :: real) = 1/2 * (4/5) \<and> (0::real) \<le> 2/5 \<and> (2/5 :: real) \<le> 1"
proof -
  have mem: "\<lparr>created_at = Some 0, payload = 1::nat, relevance_score = 1/2, decay_factor = 4/5, final_score = 2/5\<rparr>
     \<in> set (process_search_results (\<lambda>r q. 1/2) (\<lambda>t. 4/5) (\<lambda>i. 10)
              [\<lparr>created_at = Some 0, payload = 1::nat\<rparr>] ''q'')"
    by (simp add: process_search_results_def sort_reverse_def process_result_def
        get_created_at_def Let_def)
  from final_score_product [of "\<lambda>r q. 1/2" "\<lambda>t. 4/5" "\<lambda>i. 10"
      "[\<lparr>created_at = Some 0, payload = 1::nat\<rparr>]" "''q''"] mem
  show ?thesis
    by force
qed

text \<open>
  Claim C4, as the code has it. The claim says that a hit whose similarity is outside
  \<open>[0,1]\<close> is rejected with \<^verbatim>\<open>InvalidScore\<close> while the rest of the batch goes on.
  The method has no such check. In the batch below the first hit has similarity
  \<open>3/2\<close> and retention \<open>1\<close>: it is returned, at the head of the list, with
  \<open>final_score = 3/2\<close>.
\<close>

theorem similarity_not_validated_counterexample:
  "process_search_results (\<lambda>r q. payload r) (\<lambda>t. 1) (\<lambda>i. 0)
      [\<lparr>created_at = Some 0, payload = 3/2\<rparr>, \<lparr>created_at = Some 0, payload = 1/2\<rparr>] ''q''
    = [\<lparr>created_at = Some 0, payload = 3/2, relevance_score = 3/2, decay_factor = 1, final_score = 3/2\<rparr>,
       \<lparr>created_at = Some 0, payload = 1/2, relevance_score = 1/2, decay_factor = 1, final_score = 1/2\<rparr>]"
  by (simp add: process_search_results_def sort_reverse_def process_result_def
      get_created_at_def Let_def)

text \<open>
  Claim C4, amended. \<open>process_search_results\<close> checks no range and rejects no hit:
  the hits of the output are the hits of the input, each scored from its own dict and
  the clock alone, and every hit of the input, whatever its similarity, is in the
  output with that similarity as \<open>relevance_score\<close> and with
  \<open>final_score = similarity * decay_factor\<close>.
\<close>

theorem similarity_not_validated:
  "mset (map source_result (process_search_results rel dec utcnow results query)) = mset results
   \<and> (\<forall>p \<in> set (process_search_results rel dec utcnow results query).
        \<exists>i < length results. p = process_result rel dec (utcnow i) query (results ! i))
   \<and> (\<forall>r \<in> set results. \<exists>p \<in> set (process_search_results rel dec utcnow results query).
        source_result p = r \<and> relevance_score p = rel r query
        \<and> final_score p = rel r query * decay_factor p)"
proof (intro conjI ballI)
  show "mset (map source_result (process_search_results rel dec utcnow results query)) = mset results"
    by (rule mset_sources_process_search_results)
next
  fix p
  assume "p \<in> set (process_search_results rel dec utcnow results query)"
  then show "\<exists>i < length results. p = process_result rel dec (utcnow i) query (results ! i)"
    by (simp add: in_process_search_results)
next
  fix r
  assume "r \<in> set results"
  then obtain i where i: "i < length results" "results ! i = r"
    by (auto simp: in_set_conv_nth)
  let ?p = "process_result rel dec (utcnow i) query (results ! i)"
  have "?p \<in> set (process_search_results rel dec utcnow results query)"
    using i(1) by (auto simp: in_process_search_results)
  moreover have "source_result ?p = r"
    by (simp add: i(2))
  moreover have "relevance_score ?p = rel r query \<and> final_score ?p = rel r query * decay_factor ?p"
    by (simp add: process_result_def Let_def i(2))
  ultimately show "\<exists>p \<in> set (process_search_results rel dec utcnow results query).
        source_result p = r \<and> relevance_score p = rel r query
        \<and> final_score p = rel r query * decay_factor p"
    by blast
qed

theorem similarity_not_validated_witness:
  "mset (map source_result (process_search_results (\<lambda>r q. payload r) (\<lambda>t. 1) (\<lambda>i. 0)
      [\<lparr>created_at = Some 0, payload = 3/2\<rparr>, \<lparr>created_at = Some 0, payload = 1/2\<rparr>] ''q''))
    = mset [\<lparr>created_at = Some 0, payload = 3/2\<rparr>, \<lparr>created_at = Some 0, payload = 1/2 :: real\<rparr>]
   \<and> \<lparr>created_at = Some 0, payload = 3/2, relevance_score = 3/2, decay_factor = 1, final_score = 3/2\<rparr>
      \<in> set (process_search_results (\<lambda>r q. payload r) (\<lambda>t. 1) (\<lambda>i. 0)
      [\<lparr>created_at = Some 0, payload = 3/2\<rparr>, \<lparr>created_at = Some 0, payload = 1/2\<rparr>] ''q'')"
proof -
  have mem: "\<lparr>created_at = Some 0, payload = 3/2, relevance_score = 3/2, decay_factor = 1, final_score = 3/2\<rparr>
      \<in> set (process_search_results (\<lambda>r q. payload r) (\<lambda>t. 1) (\<lambda>i. 0)
      [\<lparr>created_at = Some 0, payload = 3/2\<rparr>, \<lparr>created_at = Some 0, payload = 1/2\<rparr>] ''q'')"
    by (simp add: process_search_results_def sort_reverse_def process_result_def
        get_created_at_def Let_def)
  from similarity_not_validated [of "\<lambda>r q. payload r" "\<lambda>t. 1" "\<lambda>i. 0"
      "[\<lparr>created_at = Some 0, payload = 3/2\<rparr>, \<lparr>created_at = Some 0, payload = 1/2\<rparr>]" "''q''"] mem
  show ?thesis
    by blast
qed

section \<open>The retention model and the tiers\<close>

lemma effective_decay_rate_pos:
  "valid_config cfg \<Longrightarrow> 0 < effective_decay_rate cfg n"
proof -
  assume v: "valid_config cfg"
  have "0 \<le> reinforcement_factor cfg * real n"
    using v by (simp add: valid_config_def)
  then have "0 < 1 + reinforcement_factor cfg * real n"
    by linarith
  moreover have "0 < decay_rate cfg"
    using v by (simp add: valid_config_def)
  ultimately show ?thesis
    by (simp add: effective_decay_rate_def)
qed

lemma age_days_nonneg: "0 \<le> age_days now reference"
  by (simp add: age_days_def)

lemma retention_at_age_unclamped:
  assumes "valid_config cfg" and "0 \<le> age"
  shows "retention_at_age cfg n age = initial_retention cfg * exp (- effective_decay_rate cfg n * age)"
proof -
  have ir: "0 < initial_retention cfg"
    using assms(1) by (simp add: valid_config_def)
  have "0 \<le> effective_decay_rate cfg n * age"
    using effective_decay_rate_pos [OF assms(1), of n] assms(2) by simp
  then have "exp (- effective_decay_rate cfg n * age) \<le> 1"
    by simp
  then have le: "initial_retention cfg * exp (- effective_decay_rate cfg n * age) \<le> initial_retention cfg"
    using ir by (simp add: mult_le_cancel_left1)
  have ge: "0 \<le> initial_retention cfg * exp (- effective_decay_rate cfg n * age)"
    using ir by simp
  show ?thesis
    using le ge by (simp add: retention_at_age_def min_def max_def)
qed

lemma retention_at_age_antimono:
  assumes "valid_config cfg" and "0 \<le> a1" and "a1 \<le> a2"
  shows "retention_at_age cfg n a2 \<le> retention_at_age cfg n a1"
proof -
  have ir: "0 < initial_retention cfg"
    using assms(1) by (simp add: valid_config_def)
  have "effective_decay_rate cfg n * a1 \<le> effective_decay_rate cfg n * a2"
    using effective_decay_rate_pos [OF assms(1), of n] assms(3) by simp
  then have "exp (- effective_decay_rate cfg n * a2) \<le> exp (- effective_decay_rate cfg n * a1)"
    by simp
  then have "initial_retention cfg * exp (- effective_decay_rate cfg n * a2)
      \<le> initial_retention cfg * exp (- effective_decay_rate cfg n * a1)"
    using ir by simp
  moreover have "0 \<le> a2"
    using assms(2,3) by linarith
  ultimately show ?thesis
    by (simp add: retention_at_age_unclamped [OF assms(1)] assms(2))
qed

text \<open>
  Claim C3. \<open>decay\<close> measures the age from \<^verbatim>\<open>last_reinforced_at\<close> when that is
  present, whatever \<^verbatim>\<open>created_at\<close> is, and from \<^verbatim>\<open>created_at\<close> otherwise; the age is
  \<open>max 0 (now - reference_time)\<close> and so never negative. A \<open>now\<close> that is not
  later than the reference time gives the age \<open>0\<close>: \<open>decay\<close> then returns the
  retention of age \<open>0\<close>, which for a valid configuration is the initial retention,
  and no error.
\<close>

theorem decay_reference_time:
  "decay created (Some reinforced) n now cfg = retention_at_age cfg n (max 0 (now - reinforced))
   \<and> decay created None n now cfg = retention_at_age cfg n (max 0 (now - created))
   \<and> decay created (Some reinforced) n now cfg = decay created' (Some reinforced) n now cfg
   \<and> age_days now (reference_time created last_reinforced) =
       max 0 (now - reference_time created last_reinforced)
   \<and> 0 \<le> age_days now (reference_time created last_reinforced)
   \<and> (now \<le> reference_time created last_reinforced \<longrightarrow>
        age_days now (reference_time created last_reinforced) = 0
        \<and> decay created last_reinforced n now cfg = retention_at_age cfg n 0)
   \<and> (valid_config cfg \<and> now \<le> reference_time created last_reinforced \<longrightarrow>
        decay created last_reinforced n now cfg = initial_retention cfg)"
proof -
  let ?ref = "reference_time created last_reinforced"
  have present: "decay created (Some reinforced) n now cfg =
      retention_at_age cfg n (max 0 (now - reinforced))"
    by (simp add: decay_def reference_time_def age_days_def)
  have absent: "decay created None n now cfg = retention_at_age cfg n (max 0 (now - created))"
    by (simp add: decay_def reference_time_def age_days_def)
  have same: "decay created (Some reinforced) n now cfg = decay created' (Some reinforced) n now cfg"
    by (simp add: decay_def reference_time_def)
  have age: "age_days now ?ref = max 0 (now - ?ref)"
    by (simp add: age_days_def)
  have skew: "age_days now ?ref = 0" if "now \<le> ?ref"
    using that by (simp add: age_days_def)
  have skew_decay: "decay created last_reinforced n now cfg = retention_at_age cfg n 0"
    if "now \<le> ?ref"
    using skew [OF that] by (simp add: decay_def)
  have fresh: "decay created last_reinforced n now cfg = initial_retention cfg"
    if "valid_config cfg" and "now \<le> ?ref"
    using skew_decay [OF that(2)] retention_at_age_unclamped [OF that(1), of 0 n] by simp
  show ?thesis
    using present absent same age age_days_nonneg [of now ?ref] skew skew_decay fresh
    by blast
qed

theorem decay_reference_time_witness:
  "valid_config
     \<lparr>decay_rate = 1/10, initial_retention = 1, reinforcement_factor = 3/10, working = 3/10, short_term = 6/10, long_term = 8/10\<rparr>
   \<and> (3::real) \<le> reference_time 0 (Some 5)
   \<and> age_days 3 (reference_time 0 (Some 5)) = 0
   \<and> decay 0 (Some 5) 2 3
     \<lparr>decay_rate = 1/10, initial_retention = 1, reinforcement_factor = 3/10, working = 3/10, short_term = 6/10, long_term = 8/10\<rparr> = 1"
proof -
  have v: "valid_config
     \<lparr>decay_rate = 1/10, initial_retention = 1, reinforcement_factor = 3/10, working = 3/10, short_term = 6/10, long_term = 8/10\<rparr>"
    by (simp add: valid_config_def)
  have skewed: "(3::real) \<le> reference_time 0 (Some 5)"
    by (simp add: reference_time_def)
  note facts = decay_reference_time [of 0 5 2 3
     "\<lparr>decay_rate = 1/10, initial_retention = 1, reinforcement_factor = 3/10, working = 3/10, short_term = 6/10, long_term = 8/10\<rparr>"
     0 "Some 5"]
  have "age_days 3 (reference_time 0 (Some 5)) = 0"
    using facts skewed by blast
  moreover have "decay 0 (Some 5) 2 3
     \<lparr>decay_rate = 1/10, initial_retention = 1, reinforcement_factor = 3/10, working = 3/10, short_term = 6/10, long_term = 8/10\<rparr> = 1"
    using facts v skewed by simp
  ultimately show ?thesis
    using v skewed by blast
qed

text \<open>
  Claim C6. For every valid configuration, \<open>decay\<close> of a memory that was never
  accessed, taken at the moment of its creation, is the initial retention; and in
  general \<open>decay\<close> is the initial retention times
  \<open>exp (- effective_decay_rate * age_days)\<close>, clamped to the interval from \<open>0\<close> to
  the initial retention, where the effective rate is
  \<open>decay_rate / (1 + reinforcement_factor * access_count)\<close>. For a valid
  configuration the clamp never cuts, and the retention is positive and at most the
  initial retention.
\<close>

theorem decay_formula:
  assumes "valid_config cfg"
  shows "decay created None 0 created cfg = initial_retention cfg
   \<and> decay created last_reinforced n now cfg =
       max 0 (min (initial_retention cfg)
         (initial_retention cfg *
            exp (- (decay_rate cfg / (1 + reinforcement_factor cfg * real n)) *
                   max 0 (now - reference_time created last_reinforced))))
   \<and> decay created last_reinforced n now cfg =
       initial_retention cfg *
         exp (- effective_decay_rate cfg n * age_days now (reference_time created last_reinforced))
   \<and> 0 < decay created last_reinforced n now cfg
   \<and> decay created last_reinforced n now cfg \<le> initial_retention cfg"
proof -
  let ?age = "age_days now (reference_time created last_reinforced)"
  have ir: "0 < initial_retention cfg"
    using assms by (simp add: valid_config_def)
  have unclamped: "decay created last_reinforced n now cfg =
      initial_retention cfg * exp (- effective_decay_rate cfg n * ?age)"
    by (simp add: decay_def retention_at_age_unclamped [OF assms age_days_nonneg])
  have "decay created None 0 created cfg = retention_at_age cfg 0 0"
    by (simp add: decay_def reference_time_def age_days_def)
  also have "\<dots> = initial_retention cfg"
    by (simp add: retention_at_age_unclamped [OF assms])
  finally have fresh: "decay created None 0 created cfg = initial_retention cfg" .
  have written: "decay created last_reinforced n now cfg =
       max 0 (min (initial_retention cfg)
         (initial_retention cfg *
            exp (- (decay_rate cfg / (1 + reinforcement_factor cfg * real n)) *
                   max 0 (now - reference_time created last_reinforced))))"
    by (simp add: decay_def retention_at_age_def effective_decay_rate_def age_days_def)
  have pos: "0 < decay created last_reinforced n now cfg"
    unfolding unclamped using ir by simp
  have "0 \<le> effective_decay_rate cfg n * ?age"
    using effective_decay_rate_pos [OF assms, of n] age_days_nonneg [of now] by simp
  then have "exp (- effective_decay_rate cfg n * ?age) \<le> 1"
    by simp
  then have upper: "decay created last_reinforced n now cfg \<le> initial_retention cfg"
    unfolding unclamped using ir by (simp add: mult_le_cancel_left1)
  show ?thesis
    using fresh written unclamped pos upper by blast
qed

theorem decay_formula_witness:
  "valid_config 
     \<lparr>decay_rate = 1/10, initial_retention = 1, reinforcement_factor = 3/10, working = 3/10, short_term = 6/10, long_term = 8/10\<rparr>
   \<and> decay 0 None 0 0 
     \<lparr>decay_rate = 1/10, initial_retention = 1, reinforcement_factor = 3/10, working = 3/10, short_term = 6/10, long_term = 8/10\<rparr> = 1
   \<and> decay 0 None 0 10 
     \<lparr>decay_rate = 1/10, initial_retention = 1, reinforcement_factor = 3/10, working = 3/10, short_term = 6/10, long_term = 8/10\<rparr> = exp (- 1)
   \<and> decay 0 (Some 4) 2 14 
     \<lparr>decay_rate = 1/10, initial_retention = 1, reinforcement_factor = 3/10, working = 3/10, short_term = 6/10, long_term = 8/10\<rparr> = exp (- (5/8))"
proof -
  have v: "valid_config 
     \<lparr>decay_rate = 1/10, initial_retention = 1, reinforcement_factor = 3/10, working = 3/10, short_term = 6/10, long_term = 8/10\<rparr>"
    by (simp add: valid_config_def)
  have "decay 0 None 0 0 
     \<lparr>decay_rate = 1/10, initial_retention = 1, reinforcement_factor = 3/10, working = 3/10, short_term = 6/10, long_term = 8/10\<rparr> = 1"
    using decay_formula [OF v, of 0 None 0 0] by simp
  moreover have "decay 0 None 0 10 
     \<lparr>decay_rate = 1/10, initial_retention = 1, reinforcement_factor = 3/10, working = 3/10, short_term = 6/10, long_term = 8/10\<rparr> = exp (- 1)"
    using decay_formula [OF v, of 0 None 0 10]
    by (simp add: effective_decay_rate_def age_days_def reference_time_def)
  moreover have "decay 0 (Some 4) 2 14 
     \<lparr>decay_rate = 1/10, initial_retention = 1, reinforcement_factor = 3/10, working = 3/10, short_term = 6/10, long_term = 8/10\<rparr> = exp (- (5/8))"
    using decay_formula [OF v, of 0 "Some 4" 2 14]
    by (simp add: effective_decay_rate_def age_days_def reference_time_def)
  ultimately show ?thesis
    using v by blast
qed

text \<open>
  Claim C7. For every retention and every valid configuration \<open>classify\<close> returns
  \<open>LongTerm\<close> if the retention reaches \<open>long_term\<close>, else \<open>ShortTerm\<close> if it
  reaches \<open>short_term\<close>, else \<open>Working\<close> if it reaches \<open>working\<close>, else
  \<open>Forgotten\<close>; with ascending thresholds each tier is an interval of retentions.
  With the thresholds \<open>0.3\<close>, \<open>0.6\<close> and \<open>0.8\<close> the retentions \<open>0.85\<close>,
  \<open>0.65\<close>, \<open>0.35\<close> and \<open>0.1\<close> are \<open>LongTerm\<close>, \<open>ShortTerm\<close>, \<open>Working\<close>
  and \<open>Forgotten\<close>.
\<close>

theorem classify_thresholds:
  assumes "valid_config cfg"
  shows "classify r cfg =
      (if r \<ge> long_term cfg then LongTerm
       else if r \<ge> short_term cfg then ShortTerm
       else if r \<ge> working cfg then Working
       else Forgotten)
   \<and> (classify r cfg = LongTerm \<longleftrightarrow> long_term cfg \<le> r)
   \<and> (classify r cfg = ShortTerm \<longleftrightarrow> short_term cfg \<le> r \<and> r < long_term cfg)
   \<and> (classify r cfg = Working \<longleftrightarrow> working cfg \<le> r \<and> r < short_term cfg)
   \<and> (classify r cfg = Forgotten \<longleftrightarrow> r < working cfg)
   \<and> classify (85/100) (cfg\<lparr>working := 3/10, short_term := 6/10, long_term := 8/10\<rparr>) = LongTerm
   \<and> classify (65/100) (cfg\<lparr>working := 3/10, short_term := 6/10, long_term := 8/10\<rparr>) = ShortTerm
   \<and> classify (35/100) (cfg\<lparr>working := 3/10, short_term := 6/10, long_term := 8/10\<rparr>) = Working
   \<and> classify (1/10) (cfg\<lparr>working := 3/10, short_term := 6/10, long_term := 8/10\<rparr>) = Forgotten"
proof -
  have order: "working cfg \<le> short_term cfg" "short_term cfg \<le> long_term cfg"
    using assms by (simp_all add: valid_config_def)
  have chain: "classify r cfg =
      (if r \<ge> long_term cfg then LongTerm
       else if r \<ge> short_term cfg then ShortTerm
       else if r \<ge> working cfg then Working
       else Forgotten)"
    by (simp add: classify_def)
  have lt: "classify r cfg = LongTerm \<longleftrightarrow> long_term cfg \<le> r"
    by (simp add: classify_def)
  have st: "classify r cfg = ShortTerm \<longleftrightarrow> short_term cfg \<le> r \<and> r < long_term cfg"
    using order by (auto simp: classify_def)
  have wk: "classify r cfg = Working \<longleftrightarrow> working cfg \<le> r \<and> r < short_term cfg"
    using order by (auto simp: classify_def)
  have fg: "classify r cfg = Forgotten \<longleftrightarrow> r < working cfg"
    using order by (auto simp: classify_def)
  have examples:
    "classify (85/100) (cfg\<lparr>working := 3/10, short_term := 6/10, long_term := 8/10\<rparr>) = LongTerm"
    "classify (65/100) (cfg\<lparr>working := 3/10, short_term := 6/10, long_term := 8/10\<rparr>) = ShortTerm"
    "classify (35/100) (cfg\<lparr>working := 3/10, short_term := 6/10, long_term := 8/10\<rparr>) = Working"
    "classify (1/10) (cfg\<lparr>working := 3/10, short_term := 6/10, long_term := 8/10\<rparr>) = Forgotten"
    by (simp_all add: classify_def)
  show ?thesis
    using chain lt st wk fg examples by blast
qed

theorem classify_thresholds_witness:
  "valid_config 
     \<lparr>decay_rate = 1/10, initial_retention = 1, reinforcement_factor = 3/10, working = 3/10, short_term = 6/10, long_term = 8/10\<rparr>
   \<and> classify (65/100) 
     \<lparr>decay_rate = 1/10, initial_retention = 1, reinforcement_factor = 3/10, working = 3/10, short_term = 6/10, long_term = 8/10\<rparr> = ShortTerm
   \<and> (6/10 \<le> (65/100 :: real) \<and> (65/100 :: real) < 8/10)"
proof -
  have v: "valid_config 
     \<lparr>decay_rate = 1/10, initial_retention = 1, reinforcement_factor = 3/10, working = 3/10, short_term = 6/10, long_term = 8/10\<rparr>"
    by (simp add: valid_config_def)
  show ?thesis
    using v classify_thresholds [OF v, of "65/100"] by simp
qed

text \<open>
  Claim C8. For a fixed access count and a valid configuration the retention does not
  grow with the age: for ages \<open>0 \<le> a1 \<le> a2\<close> the retention at age \<open>a2\<close> is at
  most the retention at age \<open>a1\<close>, and \<open>decay\<close> of one memory at a later time is
  at most \<open>decay\<close> at an earlier time.
\<close>

theorem decay_nonincreasing:
  assumes "valid_config cfg" and "0 \<le> a1" and "a1 \<le> a2" and "now1 \<le> now2"
  shows "retention_at_age cfg n a2 \<le> retention_at_age cfg n a1
   \<and> decay created last_reinforced n now2 cfg \<le> decay created last_reinforced n now1 cfg"
proof
  show "retention_at_age cfg n a2 \<le> retention_at_age cfg n a1"
    using assms(1-3) by (rule retention_at_age_antimono)
next
  let ?ref = "reference_time created last_reinforced"
  have "age_days now1 ?ref \<le> age_days now2 ?ref"
    using assms(4) by (simp add: age_days_def)
  then show "decay created last_reinforced n now2 cfg \<le> decay created last_reinforced n now1 cfg"
    unfolding decay_def
    by (rule retention_at_age_antimono [OF assms(1) age_days_nonneg])
qed

theorem decay_nonincreasing_witness:
  "valid_config 
     \<lparr>decay_rate = 1/10, initial_retention = 1, reinforcement_factor = 3/10, working = 3/10, short_term = 6/10, long_term = 8/10\<rparr>
   \<and> (0::real) \<le> 1 \<and> (1::real) \<le> 2 \<and> (3::real) \<le> 5
   \<and> retention_at_age 
     \<lparr>decay_rate = 1/10, initial_retention = 1, reinforcement_factor = 3/10, working = 3/10, short_term = 6/10, long_term = 8/10\<rparr> 0 2 \<le> retention_at_age 
     \<lparr>decay_rate = 1/10, initial_retention = 1, reinforcement_factor = 3/10, working = 3/10, short_term = 6/10, long_term = 8/10\<rparr> 0 1
   \<and> decay 0 None 0 5 
     \<lparr>decay_rate = 1/10, initial_retention = 1, reinforcement_factor = 3/10, working = 3/10, short_term = 6/10, long_term = 8/10\<rparr> \<le> decay 0 None 0 3 
     \<lparr>decay_rate = 1/10, initial_retention = 1, reinforcement_factor = 3/10, working = 3/10, short_term = 6/10, long_term = 8/10\<rparr>"
proof -
  have v: "valid_config 
     \<lparr>decay_rate = 1/10, initial_retention = 1, reinforcement_factor = 3/10, working = 3/10, short_term = 6/10, long_term = 8/10\<rparr>"
    by (simp add: valid_config_def)
  show ?thesis
    using v decay_nonincreasing [OF v, of 1 2 3 5 0 0 None] by simp
qed

section \<open>Memory ids: decimal text and back\<close>

lemma digit_char_digit:
  "d < 10 \<Longrightarrow> is_digit (digit_char d) \<and> digit_value (digit_char d) = d"
  by (simp add: is_digit_def digit_value_def digit_char_def)

lemma ParseUint_loop_append:
  "ParseUint_loop n (xs @ ys) =
     (case ParseUint_loop n xs of Inl err \<Rightarrow> Inl err | Inr n' \<Rightarrow> ParseUint_loop n' ys)"
  by (induction xs arbitrary: n) (simp_all add: Let_def)

lemma ParseUint_loop_digit:
  assumes "d < 10" and "n * 10 + d \<le> maxUint64"
  shows "ParseUint_loop n [digit_char d] = Inr (n * 10 + d)"
proof -
  have "n < maxUint64 div 10 + 1"
    using assms(2) by (simp add: maxUint64_def)
  then show ?thesis
    using assms digit_char_digit [OF assms(1)] by (simp add: Let_def)
qed



lemma ParseUint_loop_format_digits:
  "u \<le> maxUint64 \<Longrightarrow> ParseUint_loop 0 (format_digits u) = Inr u"
proof (induction u rule: format_digits.induct)
  case (1 u)
  show ?case
  proof (cases "u < 10")
    case True
    then show ?thesis
      using ParseUint_loop_digit [of u 0] "1.prems" by (simp add: format_digits.simps [of u])
  next
    case False
    have "u div 10 \<le> maxUint64"
      using "1.prems" by simp
    then have "ParseUint_loop 0 (format_digits (u div 10)) = Inr (u div 10)"
      using "1.IH" False by simp
    moreover have "ParseUint_loop (u div 10) [digit_char (u mod 10)] = Inr u"
      using ParseUint_loop_digit [of "u mod 10" "u div 10"] "1.prems" by simp
    ultimately show ?thesis
      using False by (simp add: format_digits.simps [of u] ParseUint_loop_append)
  qed
qed

lemma format_digits_head:
  "format_digits u \<noteq> [] \<and> is_digit (hd (format_digits u))"
proof (induction u rule: format_digits.induct)
  case (1 u)
  show ?case
  proof (cases "u < 10")
    case True
    then show ?thesis
      using digit_char_digit [of u] by (simp add: format_digits.simps [of u])
  next
    case False
    then show ?thesis
      using "1.IH" by (simp add: format_digits.simps [of u])
  qed
qed

lemma is_digit_not_sign:
  "is_digit c \<Longrightarrow> c \<noteq> CHR ''+'' \<and> c \<noteq> CHR ''-''"
  by (auto simp: is_digit_def)

lemma ParseUint_format_digits:
  "u \<le> maxUint64 \<Longrightarrow> ParseUint (format_digits u) = Inr u"
  using format_digits_head [of u] by (simp add: ParseUint_def ParseUint_loop_format_digits)

lemma ParseInt_FormatInt: "ParseInt (FormatInt i) = Inr i"
proof (cases "sint i < 0")
  case True
  let ?u = "nat (- sint i)"
  have range: "?u \<le> 2 ^ 63"
    using sint_ge [of i] by simp
  then have "?u \<le> maxUint64"
    by (simp add: maxUint64_def)
  then have parse: "ParseUint (format_digits ?u) = Inr ?u"
    by (rule ParseUint_format_digits)
  have "- word_of_nat ?u = (word_of_int (sint i) :: int64)"
    using True by (simp add: word_of_int_nat [symmetric])
  then have restored: "- word_of_nat ?u = i"
    by simp
  show ?thesis
    using True parse range restored by (simp add: ParseInt_def FormatInt_def)
next
  case False
  let ?u = "nat (sint i)"
  have range: "?u < 2 ^ 63"
    using sint_lt [of i] False by simp
  then have "?u \<le> maxUint64"
    by (simp add: maxUint64_def)
  then have parse: "ParseUint (format_digits ?u) = Inr ?u"
    by (rule ParseUint_format_digits)
  have "word_of_nat ?u = (word_of_int (sint i) :: int64)"
    using False by (simp add: word_of_int_nat [symmetric])
  then have restored: "word_of_nat ?u = i"
    by simp
  have sign: "hd (format_digits ?u) \<noteq> CHR ''+''" "hd (format_digits ?u) \<noteq> CHR ''-''"
    using format_digits_head [of ?u] is_digit_not_sign by blast+
  show ?thesis
    using False parse range restored sign format_digits_head [of ?u]
    by (simp add: ParseInt_def FormatInt_def)
qed

lemma format_digits_numeral:
  "format_digits (numeral k) =
     (if numeral k < (10::nat) then [digit_char (numeral k)]
      else format_digits (numeral k div 10) @ [digit_char (numeral k mod 10)])"
  by (rule format_digits.simps)

lemma format_digits_small:
  "format_digits 0 = [digit_char 0]" "format_digits (Suc 0) = [digit_char (Suc 0)]"
  by (simp_all add: format_digits.simps [of 0] format_digits.simps [of "Suc 0"])

lemma digit_char_values:
  "digit_char 0 = CHR ''0''" "digit_char (Suc 0) = CHR ''1''" "digit_char 2 = CHR ''2''"
  "digit_char 3 = CHR ''3''" "digit_char 4 = CHR ''4''" "digit_char 5 = CHR ''5''"
  "digit_char 6 = CHR ''6''" "digit_char 7 = CHR ''7''" "digit_char 8 = CHR ''8''"
  "digit_char 9 = CHR ''9''"
  by (simp_all add: digit_char_def char_of_def bit_0)

lemma bit_length_numeral:
  "bit_length (numeral k) = Suc (bit_length (numeral k div 2))"
  by (simp add: bit_length.simps [of "numeral k"])

lemma bit_length_small:
  "bit_length 0 = 0" "bit_length (Suc 0) = 1"
  by (simp_all add: bit_length.simps [of 0] bit_length.simps [of "Suc 0"])

lemmas ParseInt_eval =
  ParseInt_def ParseUint_def is_digit_def digit_value_def maxUint64_def Let_def

lemmas FormatInt_eval =
  FormatInt_def format_digits_numeral format_digits_small digit_char_values

lemma UnmarshalJSON_JNumber:
  "UnmarshalJSON m (JNumber lit) =
     (case ParseInt lit of Inr n \<Rightarrow> (None, n) | Inl err \<Rightarrow> (None, m))"
  by (simp add: UnmarshalJSON_def split: sum.splits)

lemma UnmarshalJSON_JString:
  "UnmarshalJSON m (JString s) =
     (case ParseInt s of Inr n \<Rightarrow> (None, n) | Inl err \<Rightarrow> (Some err, m))"
  by (simp add: UnmarshalJSON_def split: sum.splits)

lemma UnmarshalJSON_error_iff:
  "fst (UnmarshalJSON m data) \<noteq> None \<longleftrightarrow> (\<exists>s err. data = JString s \<and> ParseInt s = Inl err)"
  by (cases data) (auto simp: UnmarshalJSON_def split: sum.splits)

lemma MarshalJSON_number: "MarshalJSON m = Inr (JNumber (FormatInt m))"
  by (simp add: MarshalJSON_def Marshal_int64_def)

lemma MemoryID_round_trip:
  "MarshalJSON m = Inr data \<Longrightarrow> UnmarshalJSON m0 data = (None, m)"
  by (auto simp: MarshalJSON_number UnmarshalJSON_JNumber ParseInt_FormatInt)

section \<open>Memory ids at the JSON boundary\<close>

text \<open>
  Claim C5. The claim: every boundary that writes a memory id to JSON writes it as a
  string, never as a JSON number. \<open>MarshalJSON\<close> of the Go client writes a JSON
  number. For the id \<open>2^53 + 1 = 9007199254740993\<close> it writes the number literal
  \<^verbatim>\<open>9007199254740993\<close> and not the string; a reader that keeps numbers as doubles, as
  \<^verbatim>\<open>JSON.parse\<close> in test_precision.js does, gets \<open>9007199254740992\<close> from it.
  (Read back by \<open>UnmarshalJSON\<close> of the same client the number gives the id again,
  for every id: lemma \<open>MemoryID_round_trip\<close>.)
\<close>

theorem MarshalJSON_emits_number:
  "MarshalJSON 9007199254740993 = Inr (JNumber ''9007199254740993'')
   \<and> MarshalJSON 9007199254740993 \<noteq> Inr (JString ''9007199254740993'')
   \<and> round_to_double 9007199254740993 = 9007199254740992"
proof -
  have "FormatInt 9007199254740993 = ''9007199254740993''"
    by (simp add: FormatInt_eval)
  moreover have "round_to_double 9007199254740993 = 9007199254740992"
    by (simp add: round_to_double_def bit_length_numeral bit_length_small Let_def)
  ultimately show ?thesis
    by (simp add: MarshalJSON_number)
qed

text \<open>
  Claim C10, as the code has it. The claim says that for \<^verbatim>\<open>null\<close> the method returns
  no error and leaves the id as it was. \<^verbatim>\<open>json.Unmarshal\<close> of \<^verbatim>\<open>null\<close> into an
  \<^verbatim>\<open>int64\<close> has no effect and is no error, so the first attempt succeeds with
  \<open>n\<close> still at its zero value, and that is stored: an id \<open>5\<close> becomes \<open>0\<close>.
\<close>

theorem UnmarshalJSON_null_counterexample:
  "UnmarshalJSON 5 JNull = (None, 0) \<and> snd (UnmarshalJSON 5 JNull) \<noteq> 5"
  by (simp add: UnmarshalJSON_def)

text \<open>
  Claim C10, amended. \<open>UnmarshalJSON\<close> takes a JSON number and a JSON string alike:
  when \<^verbatim>\<open>strconv.ParseInt\<close> accepts the text, the id is set to the parsed value, and
  the decimal text of every 64-bit id is accepted in both forms. It returns an error
  exactly for a JSON string that \<^verbatim>\<open>ParseInt\<close> refuses, and then the id stays as it
  was. A number that \<^verbatim>\<open>ParseInt\<close> refuses, an object, an array and a boolean give
  no error and leave the id as it was. \<^verbatim>\<open>null\<close> gives no error and sets the id to
  \<open>0\<close>.
\<close>

theorem UnmarshalJSON_cases:
  "UnmarshalJSON m (JNumber lit) =
     (case ParseInt lit of Inr n \<Rightarrow> (None, n) | Inl err \<Rightarrow> (None, m))
   \<and> UnmarshalJSON m (JString s) =
     (case ParseInt s of Inr n \<Rightarrow> (None, n) | Inl err \<Rightarrow> (Some err, m))
   \<and> UnmarshalJSON m (JNumber (FormatInt i)) = (None, i)
   \<and> UnmarshalJSON m (JString (FormatInt i)) = (None, i)
   \<and> (fst (UnmarshalJSON m data) \<noteq> None \<longleftrightarrow>
        (\<exists>s err. data = JString s \<and> ParseInt s = Inl err))
   \<and> UnmarshalJSON m (JObject members) = (None, m)
   \<and> UnmarshalJSON m (JArray elems) = (None, m)
   \<and> UnmarshalJSON m (JBool b) = (None, m)
   \<and> UnmarshalJSON m JNull = (None, 0)"
proof -
  have digits: "UnmarshalJSON m (JNumber (FormatInt i)) = (None, i)"
    "UnmarshalJSON m (JString (FormatInt i)) = (None, i)"
    by (simp_all add: UnmarshalJSON_JNumber UnmarshalJSON_JString ParseInt_FormatInt)
  have others: "UnmarshalJSON m (JObject members) = (None, m)"
    "UnmarshalJSON m (JArray elems) = (None, m)"
    "UnmarshalJSON m (JBool b) = (None, m)"
    "UnmarshalJSON m JNull = (None, 0)"
    by (simp_all add: UnmarshalJSON_def)
  show ?thesis
    using UnmarshalJSON_JNumber [of m lit] UnmarshalJSON_JString [of m s]
      UnmarshalJSON_error_iff [of m data] digits others
    by blast
qed

theorem UnmarshalJSON_cases_witness:
  "UnmarshalJSON 5 (JNumber ''653247040368672768'') = (None, 653247040368672768)
   \<and> UnmarshalJSON 5 (JString ''653247040368672768'') = (None, 653247040368672768)
   \<and> UnmarshalJSON 5 (JString ''12a'') = (Some ErrSyntax, 5)
   \<and> UnmarshalJSON 5 (JNumber ''1.5'') = (None, 5)"
proof -
  have p1: "ParseInt ''653247040368672768'' = Inr 653247040368672768"
    by (simp add: ParseInt_eval)
  have p2: "ParseInt ''12a'' = Inl ErrSyntax"
    by (simp add: ParseInt_eval)
  have p3: "ParseInt ''1.5'' = Inl ErrSyntax"
    by (simp add: ParseInt_eval)
  note big = UnmarshalJSON_cases [of 5 "''653247040368672768''" "''653247040368672768''"
      0 JNull "[]" "[]" True]
  note bad = UnmarshalJSON_cases [of 5 "''1.5''" "''12a''" 0 JNull "[]" "[]" True]
  have "UnmarshalJSON 5 (JNumber ''653247040368672768'') = (None, 653247040368672768)"
    using big [THEN conjunct1] by (simp add: p1)
  moreover have "UnmarshalJSON 5 (JString ''653247040368672768'') = (None, 653247040368672768)"
    using big [THEN conjunct2, THEN conjunct1] by (simp add: p1)
  moreover have "UnmarshalJSON 5 (JString ''12a'') = (Some ErrSyntax, 5)"
    using bad [THEN conjunct2, THEN conjunct1] by (simp add: p2)
  moreover have "UnmarshalJSON 5 (JNumber ''1.5'') = (None, 5)"
    using bad [THEN conjunct1] by (simp add: p3)
  ultimately show ?thesis
    by blast
qed

end
